theory Spec2Isabelle
  imports Main
begin

section \<open>The date adapter\<close>

text \<open>
  The picker never inspects a date itself: every comparison, validity test, parse and
  format goes through the adapter object returned by \<^verbatim>\<open>useUtils\<close>. The adapter is a
  date library outside this repository, so it is a parameter of everything below. A date
  of the adapter's type \<^verbatim>\<open>TDate\<close> is a value of \<open>'d\<close>; a slot that may be \<^verbatim>\<open>null\<close> is a
  \<open>'d option\<close>; an unparsable input is a non-null date on which \<open>isValid\<close> is false. The
  type \<open>'r\<close> is the external representation a caller may hand in as a range side.

  The source calls \<^verbatim>\<open>utils.isEqual\<close> on nullable slots and reads
  \<^verbatim>\<open>utils.formats.keyboardDate\<close>; the other operations are those of the adapter
  interface of the specification (6): \<open>parse\<close> and \<open>format\<close> take the text or date and
  the format string, \<open>isBefore\<close> and \<open>isAfter\<close> compare two dates, \<open>date\<close> reads an
  external representation.
\<close>

record ('d, 'r) MuiPickersAdapter =
  isEqual :: "'d option \<Rightarrow> 'd option \<Rightarrow> bool"
  isBefore :: "'d \<Rightarrow> 'd \<Rightarrow> bool"
  isAfter :: "'d \<Rightarrow> 'd \<Rightarrow> bool"
  isValid :: "'d \<Rightarrow> bool"
  date :: "'r \<Rightarrow> 'd"
  parse :: "string \<Rightarrow> string \<Rightarrow> 'd"
  format :: "'d \<Rightarrow> string \<Rightarrow> string"
  keyboardDate :: string

text \<open>\<^verbatim>\<open>useDefaultDates\<close>: the bounds the adapter context supplies.\<close>

record 'd DefaultDates =
  defaultMinDate :: 'd
  defaultMaxDate :: 'd

section \<open>The range value model\<close>

text \<open>
  \<^verbatim>\<open>DateRange<TDate> = [TDate | null, TDate | null]\<close> and
  \<^verbatim>\<open>RangeInput<TDate>\<close>, the same shape over the external representation.
\<close>

type_synonym 'd DateRange = "'d option \<times> 'd option"

type_synonym 'r RangeInput = "'r option \<times> 'r option"

text \<open>
  Modelled from the spec: \<^verbatim>\<open>parseRangeInputValue\<close> is imported from
  \<^verbatim>\<open>internal/utils/date-utils\<close>, which is not among the sources. The specification
  (4.2) says that it accepts a two-element external representation and parses each side
  independently through the adapter, and that a partially-null pair stays partially
  null. A side that is present is handed to the adapter, whose result is a date (valid
  or marked invalid), never \<^verbatim>\<open>null\<close>.
\<close>

definition parseRangeInputValue ::
  "('d, 'r) MuiPickersAdapter \<Rightarrow> 'r RangeInput \<Rightarrow> 'd DateRange" where
  "parseRangeInputValue utils raw =
     (map_option (date utils) (fst raw), map_option (date utils) (snd raw))"

text \<open>
  \<^verbatim>\<open>PickerStateValueManager\<close> and the manager of the range picker
  (DateRangePicker.tsx, lines 78 to 82):
  \<^verbatim>\<open>
  const rangePickerValueManager = {
    emptyValue: [null, null],
    parseInput: parseRangeInputValue,
    areValuesEqual: (utils, a, b) => utils.isEqual(a[0], b[0]) && utils.isEqual(a[1], b[1]),
  };
  \<close>
\<close>

record ('u, 'i, 'v) PickerStateValueManager =
  emptyValue :: 'v
  parseInput :: "'u \<Rightarrow> 'i \<Rightarrow> 'v"
  areValuesEqual :: "'u \<Rightarrow> 'v \<Rightarrow> 'v \<Rightarrow> bool"

definition rangePickerValueManager ::
  "(('d, 'r) MuiPickersAdapter, 'r RangeInput, 'd DateRange) PickerStateValueManager" where
  "rangePickerValueManager =
     \<lparr> emptyValue = (None, None),
       parseInput = parseRangeInputValue,
       areValuesEqual = (\<lambda>utils a b. isEqual utils (fst a) (fst b) \<and> isEqual utils (snd a) (snd b)) \<rparr>"

section \<open>The props of the range picker and what each collaborator receives\<close>

datatype SelectionPosition = Start | End

text \<open>
  \<^verbatim>\<open>ValidationProps\<close>: the declarative rules. An omitted bound or predicate is
  \<open>None\<close>; an omitted flag is \<open>False\<close>.
\<close>

record 'd ValidationProps =
  disableFuture :: bool
  disablePast :: bool
  minDate :: "'d option"
  maxDate :: "'d option"
  shouldDisableDate :: "('d \<Rightarrow> bool) option"
  shouldDisableYear :: "('d \<Rightarrow> bool) option"

text \<open>
  \<^verbatim>\<open>DateRangePickerProps\<close> (after \<^verbatim>\<open>useThemeProps\<close>): the rules and the props that
  the component destructures. Presentational props are left out.
\<close>

record ('d, 'r) DateRangePickerProps = "'d ValidationProps" +
  calendars :: "nat option"
  valueProp :: "'r RangeInput"
  mask :: "string option"
  startText :: "string option"
  endText :: "string option"
  inputFormat :: "string option"
  disableCloseOnSelect :: bool
  openProp :: "bool option"

text \<open>
  \<^verbatim>\<open>const minDate = minDateProp ?? defaultDates.minDate;\<close> and the same for
  \<^verbatim>\<open>maxDate\<close>; then \<^verbatim>\<open>restProps = { ...other, minDate, maxDate }\<close>. Of
  \<^verbatim>\<open>other\<close>, the rules are kept.
\<close>

definition restProps ::
  "'d DefaultDates \<Rightarrow> ('d, 'r) DateRangePickerProps \<Rightarrow> 'd ValidationProps" where
  "restProps defaultDates props =
     \<lparr> disableFuture = disableFuture props,
       disablePast = disablePast props,
       minDate = Some (case minDate props of None \<Rightarrow> defaultMinDate defaultDates | Some d \<Rightarrow> d),
       maxDate = Some (case maxDate props of None \<Rightarrow> defaultMaxDate defaultDates | Some d \<Rightarrow> d),
       shouldDisableDate = shouldDisableDate props,
       shouldDisableYear = shouldDisableYear props \<rparr>"

text \<open>
  \<^verbatim>\<open>useDateRangeValidation(props)\<close> is called on \<^verbatim>\<open>props\<close> itself (line 147), not
  on \<^verbatim>\<open>restProps\<close>: the rules it reads are the props as they came in.
\<close>

definition validationProps :: "('d, 'r) DateRangePickerProps \<Rightarrow> 'd ValidationProps" where
  "validationProps props =
     \<lparr> disableFuture = disableFuture props,
       disablePast = disablePast props,
       minDate = minDate props,
       maxDate = maxDate props,
       shouldDisableDate = shouldDisableDate props,
       shouldDisableYear = shouldDisableYear props \<rparr>"

text \<open>
  \<^verbatim>\<open>DateInputProps\<close> (lines 149 to 160): the rest props, the selection position, the
  input format (\<^verbatim>\<open>passedInputFormat || utils.formats.keyboardDate\<close>, so an empty
  string falls back too), the two labels and the mask with their defaults from the
  destructuring (lines 113 to 115), and the validation error.
\<close>

record ('d, 'e) DateInputProps =
  dip_restProps :: "'d ValidationProps"
  dip_currentlySelectingRangeEnd :: SelectionPosition
  dip_inputFormat :: string
  dip_startText :: string
  dip_endText :: string
  dip_mask :: string
  dip_validationError :: 'e

definition DateInputProps_of ::
  "('d, 'r) MuiPickersAdapter \<Rightarrow> 'd DefaultDates \<Rightarrow> SelectionPosition \<Rightarrow> 'e \<Rightarrow>
   ('d, 'r) DateRangePickerProps \<Rightarrow> ('d, 'e) DateInputProps" where
  "DateInputProps_of utils defaultDates currentlySelectingRangeEnd validationError props =
     \<lparr> dip_restProps = restProps defaultDates props,
       dip_currentlySelectingRangeEnd = currentlySelectingRangeEnd,
       dip_inputFormat =
         (case inputFormat props of
            None \<Rightarrow> keyboardDate utils
          | Some f \<Rightarrow> if f = [] then keyboardDate utils else f),
       dip_startText = (case startText props of None \<Rightarrow> ''Start'' | Some t \<Rightarrow> t),
       dip_endText = (case endText props of None \<Rightarrow> ''End'' | Some t \<Rightarrow> t),
       dip_mask = (case mask props of None \<Rightarrow> ''__/__/____'' | Some m \<Rightarrow> m),
       dip_validationError = validationError \<rparr>"

text \<open>
  What one render of \<^verbatim>\<open>DateRangePicker\<close> hands to its collaborators (lines 142 to
  182): the wrapper receives \<^verbatim>\<open>DateInputProps\<close> for the keyboard input component,
  which is one component, \<^verbatim>\<open>DateRangePickerInput\<close>, for both text fields; the view
  receives the number of calendars (two by default), the selection position,
  \<^verbatim>\<open>DateInputProps\<close> and, spread last, the rest props; the validation hook receives
  the props. The selection position is the current value of the component's state, and
  the validation error is what the validation hook returned; both are parameters here.
\<close>

record ('d, 'e) Rendered =
  wrapper_DateInputProps :: "('d, 'e) DateInputProps"
  view_calendars :: nat
  view_currentlySelectingRangeEnd :: SelectionPosition
  view_DateInputProps :: "('d, 'e) DateInputProps"
  view_restProps :: "'d ValidationProps"
  validation_props :: "'d ValidationProps"

definition DateRangePicker ::
  "('d, 'r) MuiPickersAdapter \<Rightarrow> 'd DefaultDates \<Rightarrow> SelectionPosition \<Rightarrow> 'e \<Rightarrow>
   ('d, 'r) DateRangePickerProps \<Rightarrow> ('d, 'e) Rendered" where
  "DateRangePicker utils defaultDates currentlySelectingRangeEnd validationError props =
     (let dip = DateInputProps_of utils defaultDates currentlySelectingRangeEnd validationError props
      in \<lparr> wrapper_DateInputProps = dip,
           view_calendars = (case calendars props of None \<Rightarrow> 2 | Some n \<Rightarrow> n),
           view_currentlySelectingRangeEnd = currentlySelectingRangeEnd,
           view_DateInputProps = dip,
           view_restProps = restProps defaultDates props,
           validation_props = validationProps props \<rparr>)"

text \<open>
  \<^verbatim>\<open>React.useState<'start' | 'end'>('start')\<close> (lines 126 to 128): the selection
  position a freshly created picker starts with.
\<close>

definition currentlySelectingRangeEnd_initial :: SelectionPosition where
  "currentlySelectingRangeEnd_initial = Start"

section \<open>The validation engine\<close>

text \<open>
  Modelled from the spec: the tagged validation result (3); the error type of the
  validation hook is not among the sources. \<open>NoError\<close> is the \<^verbatim>\<open>none\<close> of the
  specification.
\<close>

datatype ValidationError =
  InvalidDate | DisableFuture | DisablePast | MinDate | MaxDate
  | ShouldDisableDate | ShouldDisableYear | InvalidRange | NoError

text \<open>
  The per-date validation behind \<^verbatim>\<open>useDateRangeValidation\<close>
  (\<^verbatim>\<open>internal/hooks/validation\<close>) is not among the sources. The specification (4.3)
  gives the rules and their order, first match wins:
  (1) value present but unparsable, (2) \<^verbatim>\<open>disableFuture\<close> and value after now,
  (3) \<^verbatim>\<open>disablePast\<close> and value before now, (4) value before the configured
  \<^verbatim>\<open>minDate\<close>, (5) value after the configured \<^verbatim>\<open>maxDate\<close>, (6) the
  \<^verbatim>\<open>shouldDisableDate\<close> predicate holds, (7) the \<^verbatim>\<open>shouldDisableYear\<close> predicate
  holds, (8) otherwise none. "Now" is a parameter. Every rule speaks of a value that is
  present, so an absent side matches none of them.
\<close>

text \<open>Modelled from the spec: rule 4 of (4.3), value before the configured minimum.\<close>

definition beforeMinDate ::
  "('d, 'r) MuiPickersAdapter \<Rightarrow> ('d, 'z) ValidationProps_scheme \<Rightarrow> 'd \<Rightarrow> bool" where
  "beforeMinDate utils rules d =
     (case minDate rules of None \<Rightarrow> False | Some m \<Rightarrow> isBefore utils d m)"

text \<open>Modelled from the spec: rule 5 of (4.3), value after the configured maximum.\<close>

definition afterMaxDate ::
  "('d, 'r) MuiPickersAdapter \<Rightarrow> ('d, 'z) ValidationProps_scheme \<Rightarrow> 'd \<Rightarrow> bool" where
  "afterMaxDate utils rules d =
     (case maxDate rules of None \<Rightarrow> False | Some m \<Rightarrow> isAfter utils d m)"

text \<open>Modelled from the spec: rule 6 of (4.3), the date predicate, when configured.\<close>

definition dateDisabled :: "('d, 'z) ValidationProps_scheme \<Rightarrow> 'd \<Rightarrow> bool" where
  "dateDisabled rules d = (case shouldDisableDate rules of None \<Rightarrow> False | Some f \<Rightarrow> f d)"

text \<open>Modelled from the spec: rule 7 of (4.3), the year predicate, when configured.\<close>

definition yearDisabled :: "('d, 'z) ValidationProps_scheme \<Rightarrow> 'd \<Rightarrow> bool" where
  "yearDisabled rules d = (case shouldDisableYear rules of None \<Rightarrow> False | Some f \<Rightarrow> f d)"

text \<open>
  Modelled from the spec: \<^verbatim>\<open>validate(value, rules, now)\<close> for one date or range
  side (4.3), the rules tried in their order.
\<close>

definition validate ::
  "('d, 'r) MuiPickersAdapter \<Rightarrow> ('d, 'z) ValidationProps_scheme \<Rightarrow> 'd \<Rightarrow> 'd option \<Rightarrow>
   ValidationError" where
  "validate utils rules now v =
     (case v of
        None \<Rightarrow> NoError
      | Some d \<Rightarrow>
          if \<not> isValid utils d then InvalidDate
          else if disableFuture rules \<and> isAfter utils d now then DisableFuture
          else if disablePast rules \<and> isBefore utils d now then DisablePast
          else if beforeMinDate utils rules d then MinDate
          else if afterMaxDate utils rules d then MaxDate
          else if dateDisabled rules d then ShouldDisableDate
          else if yearDisabled rules d then ShouldDisableYear
          else NoError)"

text \<open>
  Modelled from the spec: the same rules written as the specification lists them (4.3),
  an ordered table of each result with the condition under which its rule matches, and
  "first match wins, otherwise none" as a search through the table.
\<close>

definition rulesInOrder ::
  "('d, 'r) MuiPickersAdapter \<Rightarrow> ('d, 'z) ValidationProps_scheme \<Rightarrow> 'd \<Rightarrow> 'd \<Rightarrow>
   (ValidationError \<times> bool) list" where
  "rulesInOrder utils rules now d =
     [ (InvalidDate, \<not> isValid utils d),
       (DisableFuture, disableFuture rules \<and> isAfter utils d now),
       (DisablePast, disablePast rules \<and> isBefore utils d now),
       (MinDate, beforeMinDate utils rules d),
       (MaxDate, afterMaxDate utils rules d),
       (ShouldDisableDate, dateDisabled rules d),
       (ShouldDisableYear, yearDisabled rules d) ]"

text \<open>Modelled from the spec: "first match wins", otherwise none (4.3).\<close>

fun firstMatch :: "(ValidationError \<times> bool) list \<Rightarrow> ValidationError" where
  "firstMatch [] = NoError"
| "firstMatch ((e, matches) # rest) = (if matches then e else firstMatch rest)"

text \<open>Modelled from the spec: the rule set with nothing configured (8, property 2).\<close>

definition noRules :: "'d ValidationProps" where
  "noRules =
     \<lparr> disableFuture = False, disablePast = False, minDate = None, maxDate = None,
       shouldDisableDate = None, shouldDisableYear = None \<rparr>"

text \<open>
  Modelled from the spec: the range validation of \<^verbatim>\<open>useDateRangeValidation\<close> is not
  among the sources. The specification (3, 4.3): the result for a range carries the pair
  of per-side errors; after the per-side evaluation, if both sides are none but start is
  after end under the adapter, the pair is additionally flagged \<^verbatim>\<open>invalidRange\<close>, a
  composite result in which the flag does not overwrite a side's own error.
\<close>

record RangeValidation =
  startError :: ValidationError
  endError :: ValidationError
  rangeError :: ValidationError

text \<open>
  Modelled from the spec: "start > end (adapter comparison)" of (4.3), for a pair with
  both sides present.
\<close>

definition startAfterEnd :: "('d, 'r) MuiPickersAdapter \<Rightarrow> 'd DateRange \<Rightarrow> bool" where
  "startAfterEnd utils v =
     (case fst v of
        None \<Rightarrow> False
      | Some s \<Rightarrow> (case snd v of None \<Rightarrow> False | Some e \<Rightarrow> isAfter utils s e))"

text \<open>
  Modelled from the spec: \<^verbatim>\<open>validate\<close> for a range (4.3): each side on its own,
  then the order of the pair when both sides are none.
\<close>

definition validateRange ::
  "('d, 'r) MuiPickersAdapter \<Rightarrow> ('d, 'z) ValidationProps_scheme \<Rightarrow> 'd \<Rightarrow> 'd DateRange \<Rightarrow>
   RangeValidation" where
  "validateRange utils rules now v =
     (let se = validate utils rules now (fst v);
          ee = validate utils rules now (snd v)
      in \<lparr> startError = se,
           endError = ee,
           rangeError =
             (if se = NoError \<and> ee = NoError \<and> startAfterEnd utils v
              then InvalidRange else NoError) \<rparr>)"

text \<open>
  Modelled from the spec: a pair is fully valid (4.4) when neither side nor the pair
  carries an error.
\<close>

definition fullyValid :: "RangeValidation \<Rightarrow> bool" where
  "fullyValid err =
     (startError err = NoError \<and> endError err = NoError \<and> rangeError err = NoError)"

text \<open>
  Modelled from the spec: \<^verbatim>\<open>useDateRangeValidation\<close> is not among the sources. The
  source calls it as \<^verbatim>\<open>const validationError = useDateRangeValidation(props);\<close>
  (line 147); by the specification it validates the range value, here the value prop
  parsed by the value manager, against the rules it is given.
\<close>

definition useDateRangeValidation ::
  "('d, 'r) MuiPickersAdapter \<Rightarrow> 'd \<Rightarrow> ('d, 'r) DateRangePickerProps \<Rightarrow> RangeValidation" where
  "useDateRangeValidation utils now props =
     validateRange utils (validationProps props) now
       (parseInput rangePickerValueManager utils (valueProp props))"

section \<open>The input mask engine\<close>

text \<open>
  Modelled from the spec: a keystroke (4.1) is a character key, digit or not, or the
  deletion key.
\<close>

datatype Keystroke = Key char | Backspace

text \<open>Modelled from the spec: (4.1) the keys a \<^verbatim>\<open>_\<close> slot accepts, the ten digits.\<close>

definition isDigit :: "char \<Rightarrow> bool" where
  "isDigit c = (c \<in> set ''0123456789'')"

text \<open>
  Modelled from the spec: the masked text field lives in the input components, which are
  not among the sources. The specification (4.1): the template is a fixed-width string
  whose \<^verbatim>\<open>_\<close> positions accept one digit each and whose other characters are literal
  separators. The buffer has the width of the template: a shorter text is completed with
  the rest of the template.
\<close>

definition onTemplate :: "string \<Rightarrow> string \<Rightarrow> string" where
  "onTemplate txt maskTemplate =
     take (length maskTemplate) (txt @ drop (length txt) maskTemplate)"

text \<open>
  Modelled from the spec: (4.1) a digit fills the next available \<^verbatim>\<open>_\<close> slot, skipping
  the literal separators.
\<close>

fun fillNextSlot :: "char \<Rightarrow> string \<Rightarrow> string \<Rightarrow> string" where
  "fillNextSlot c (t # ts) (m # ms) =
     (if m = CHR ''_'' \<and> t = CHR ''_'' then c # ts else t # fillNextSlot c ts ms)"
| "fillNextSlot c ts ms = ts"

text \<open>
  Modelled from the spec: (4.1) deletion clears the nearest filled slot leftward and
  leaves the separators intact. Without a cursor the nearest filled slot is the last one;
  the function below clears the first filled slot of the reversed buffer.
\<close>

fun clearFirstFilled :: "string \<Rightarrow> string \<Rightarrow> string" where
  "clearFirstFilled (t # ts) (m # ms) =
     (if m = CHR ''_'' \<and> t \<noteq> CHR ''_'' then CHR ''_'' # ts else t # clearFirstFilled ts ms)"
| "clearFirstFilled ts ms = ts"

text \<open>Modelled from the spec: (4.1) deletion, on the buffer as it is written.\<close>

definition clearLastSlot :: "string \<Rightarrow> string \<Rightarrow> string" where
  "clearLastSlot buf maskTemplate = rev (clearFirstFilled (rev buf) (rev maskTemplate))"

text \<open>
  Modelled from the spec: (4.1) the buffer is complete only when every \<^verbatim>\<open>_\<close> slot is
  filled.
\<close>

fun slotsFilled :: "string \<Rightarrow> string \<Rightarrow> bool" where
  "slotsFilled (t # ts) (m # ms) =
     ((if m = CHR ''_'' then t \<noteq> CHR ''_'' else True) \<and> slotsFilled ts ms)"
| "slotsFilled [] (m # ms) = False"
| "slotsFilled ts [] = True"

text \<open>
  Modelled from the spec: (4.1) \<^verbatim>\<open>applyKeystroke(previousText, keystroke, maskTemplate)\<close>
  returns the display text and whether it is complete. A key that is not a digit either
  matches the separator it stands on, which the fixed-width buffer already holds, or is
  ignored: the text stays as it is in both cases.
\<close>

definition applyKeystroke :: "string \<Rightarrow> Keystroke \<Rightarrow> string \<Rightarrow> string \<times> bool" where
  "applyKeystroke previousText keystroke maskTemplate =
     (let buf = onTemplate previousText maskTemplate;
          shown =
            (case keystroke of
               Key c \<Rightarrow> if isDigit c then fillNextSlot c buf maskTemplate else buf
             | Backspace \<Rightarrow> clearLastSlot buf maskTemplate)
      in (shown, slotsFilled shown maskTemplate))"

section \<open>The overlay lifecycle coordinator\<close>

text \<open>
  Modelled from the spec: the requests the coordinator decides on (4.5): open on focus,
  close on select, close on outside click or escape.
\<close>

datatype OverlayAction = OpenOnFocus | CloseOnSelect | CloseOnDismiss

text \<open>
  Modelled from the spec: the wrapper state behind \<^verbatim>\<open>usePickerState\<close> is not among
  the sources. The specification (4.5): a pure policy over the requested action, the
  current open state and the configuration. A controlled \<^verbatim>\<open>open\<close> prop always
  overrides internal requests; otherwise open on focus is always honoured, close on
  select is honoured unless \<^verbatim>\<open>disableCloseOnSelect\<close> is set, and outside click or
  escape always close.
\<close>

definition overlayPolicy :: "OverlayAction \<Rightarrow> bool \<Rightarrow> bool option \<Rightarrow> bool \<Rightarrow> bool" where
  "overlayPolicy action currentOpen controlledOpen closeOnSelectDisabled =
     (case controlledOpen of
        Some b \<Rightarrow> b
      | None \<Rightarrow>
          (case action of
             OpenOnFocus \<Rightarrow> True
           | CloseOnSelect \<Rightarrow> if closeOnSelectDisabled then currentOpen else False
           | CloseOnDismiss \<Rightarrow> False))"

section \<open>The picker state controller\<close>

text \<open>
  Modelled from the spec: what the controller of one picker instance is configured with
  (6): the adapter, the rules handed to validation, the injected "now", the mask
  template and the input format of the text fields, and the overlay options.
\<close>

record ('d, 'r) PickerConfig =
  cfg_utils :: "('d, 'r) MuiPickersAdapter"
  cfg_rules :: "'d ValidationProps"
  cfg_now :: 'd
  cfg_mask :: string
  cfg_inputFormat :: string
  cfg_disableCloseOnSelect :: bool
  cfg_open :: "bool option"

text \<open>
  Modelled from the spec: the configuration, filled in the way \<^verbatim>\<open>DateRangePicker\<close>
  wires its collaborators: validation reads the props it is handed, the text fields read
  \<^verbatim>\<open>DateInputProps\<close>.
\<close>

definition pickerConfig ::
  "('d, 'r) MuiPickersAdapter \<Rightarrow> 'd DefaultDates \<Rightarrow> 'd \<Rightarrow> ('d, 'r) DateRangePickerProps \<Rightarrow>
   ('d, 'r) PickerConfig" where
  "pickerConfig utils defaultDates now props =
     (let r = DateRangePicker utils defaultDates currentlySelectingRangeEnd_initial
                (useDateRangeValidation utils now props) props
      in \<lparr> cfg_utils = utils,
           cfg_rules = validation_props r,
           cfg_now = now,
           cfg_mask = dip_mask (wrapper_DateInputProps r),
           cfg_inputFormat = dip_inputFormat (wrapper_DateInputProps r),
           cfg_disableCloseOnSelect = disableCloseOnSelect props,
           cfg_open = openProp props \<rparr>)"

text \<open>
  Modelled from the spec: the snapshot (3) together with the mask state: the committed
  value, the open state, the selection position, the last validation result, and the
  text buffer of the slot being edited (\<open>None\<close> when there is no keystroke buffer).
\<close>

record 'd PickerState =
  pickerValue :: "'d DateRange"
  isOpen :: bool
  selectionPosition :: SelectionPosition
  validationError :: RangeValidation
  maskState :: "string option"

text \<open>Modelled from the spec: the events of the controller (4.4).\<close>

datatype ('d, 'r) PickerEvent =
  FocusInput SelectionPosition
  | KeystrokeEvent Keystroke
  | CalendarSelect 'd
  | ExternalValueChange "'r RangeInput"
  | Dismiss

text \<open>
  Modelled from the spec: a call of one of the two callbacks (4.4), \<^verbatim>\<open>onError\<close> with
  a validation result or \<^verbatim>\<open>onChange\<close> with a committed value.
\<close>

datatype 'd Callback = OnError RangeValidation | OnChange "'d DateRange"

text \<open>Modelled from the spec: the slot of a range a selection position names (3).\<close>

definition side :: "SelectionPosition \<Rightarrow> 'd DateRange \<Rightarrow> 'd option" where
  "side p v = (case p of Start \<Rightarrow> fst v | End \<Rightarrow> snd v)"

text \<open>
  Modelled from the spec: the pair with one slot replaced by a date and the other slot
  as it was (4.4).
\<close>

definition setSide :: "SelectionPosition \<Rightarrow> 'd \<Rightarrow> 'd DateRange \<Rightarrow> 'd DateRange" where
  "setSide p d v = (case p of Start \<Rightarrow> (Some d, snd v) | End \<Rightarrow> (fst v, Some d))"

text \<open>
  Modelled from the spec: the text of a committed side (4.4, 5): the adapter's format of
  the date with the input format, empty for null.
\<close>

definition formatSide :: "('d, 'r) PickerConfig \<Rightarrow> 'd option \<Rightarrow> string" where
  "formatSide cfg v =
     (case v of None \<Rightarrow> [] | Some d \<Rightarrow> format (cfg_utils cfg) d (cfg_inputFormat cfg))"

text \<open>
  Modelled from the spec: the text shown in a slot. The slot being edited shows its
  keystroke buffer while one exists; every other slot, and every slot when there is no
  buffer, shows the formatted committed value (4.4, 5).
\<close>

definition displayText ::
  "('d, 'r) PickerConfig \<Rightarrow> 'd PickerState \<Rightarrow> SelectionPosition \<Rightarrow> string" where
  "displayText cfg st p =
     (case maskState st of
        None \<Rightarrow> formatSide cfg (side p (pickerValue st))
      | Some buf \<Rightarrow>
          if selectionPosition st = p then buf else formatSide cfg (side p (pickerValue st)))"

text \<open>
  Modelled from the spec: the state a picker is created with. The selection position is
  the initial value of the \<^verbatim>\<open>currentlySelectingRangeEnd\<close> state of the source; the
  value is the value prop parsed by the value manager; the overlay is closed unless the
  controlled prop says otherwise; there is no keystroke buffer.
\<close>

definition initialState ::
  "('d, 'r) PickerConfig \<Rightarrow> 'r RangeInput \<Rightarrow> 'd PickerState" where
  "initialState cfg raw =
     (let v = parseInput rangePickerValueManager (cfg_utils cfg) raw
      in \<lparr> pickerValue = v,
           isOpen = (case cfg_open cfg of None \<Rightarrow> False | Some b \<Rightarrow> b),
           selectionPosition = currentlySelectingRangeEnd_initial,
           validationError = validateRange (cfg_utils cfg) (cfg_rules cfg) (cfg_now cfg) v,
           maskState = None \<rparr>)"

text \<open>
  Modelled from the spec: committing a candidate date into the slot the selection
  position names (4.4, and scenarios 7 and 8 of section 8). The candidate is validated
  on its own side and the pair it would form is validated as a whole; the result goes to
  \<^verbatim>\<open>onError\<close>. A candidate with an error of its own is not committed: the value
  stays, \<^verbatim>\<open>onChange\<close> is not called and the overlay stays as it is. Otherwise the
  pair is committed and \<^verbatim>\<open>onChange\<close> is called once with it, after
  \<^verbatim>\<open>onError\<close>; the keystroke buffer is destroyed. A start commit flips the selection
  position to the end and keeps the overlay open; an end commit requests a close only if
  the pair is fully valid.
\<close>

definition commitCandidate ::
  "('d, 'r) PickerConfig \<Rightarrow> 'd PickerState \<Rightarrow> 'd \<Rightarrow> 'd PickerState \<times> 'd Callback list" where
  "commitCandidate cfg st d =
     (let candidate = setSide (selectionPosition st) d (pickerValue st);
          err = validateRange (cfg_utils cfg) (cfg_rules cfg) (cfg_now cfg) candidate
      in if validate (cfg_utils cfg) (cfg_rules cfg) (cfg_now cfg) (Some d) \<noteq> NoError
         then (st\<lparr>validationError := err\<rparr>, [OnError err])
         else
           (case selectionPosition st of
              Start \<Rightarrow>
                (st\<lparr>pickerValue := candidate, selectionPosition := End,
                    validationError := err, maskState := None\<rparr>,
                 [OnError err, OnChange candidate])
            | End \<Rightarrow>
                (st\<lparr>pickerValue := candidate,
                    isOpen :=
                      (if fullyValid err
                       then overlayPolicy CloseOnSelect (isOpen st) (cfg_open cfg)
                              (cfg_disableCloseOnSelect cfg)
                       else isOpen st),
                    validationError := err, maskState := None\<rparr>,
                 [OnError err, OnChange candidate])))"

text \<open>
  Modelled from the spec: the transitions of the picker state controller (4.4), which
  in the repository is \<^verbatim>\<open>usePickerState\<close> with the input and view components, none
  of them among the sources.
  \<^item> \<^verbatim>\<open>focusInput\<close> opens to the focused slot and creates the mask state from the text
    the slot shows; the committed value stays.
  \<^item> \<^verbatim>\<open>keystroke\<close> goes through the mask engine. An incomplete buffer is only stored.
    A complete one is parsed by the adapter with the input format and treated as a
    candidate commit; a rejected candidate stays on screen in the buffer.
  \<^item> \<^verbatim>\<open>calendarSelect\<close> is a candidate commit of the selected date.
  \<^item> \<^verbatim>\<open>externalValueChange\<close> replaces the value by the parsed new value, discards the
    mask state and resets the selection position to the start.
  \<^item> \<^verbatim>\<open>dismiss\<close> closes and discards the keystroke buffer, with no callback.
\<close>

definition step ::
  "('d, 'r) PickerConfig \<Rightarrow> 'd PickerState \<Rightarrow> ('d, 'r) PickerEvent \<Rightarrow>
   'd PickerState \<times> 'd Callback list" where
  "step cfg st ev =
     (case ev of
        FocusInput p \<Rightarrow>
          (st\<lparr>isOpen := overlayPolicy OpenOnFocus (isOpen st) (cfg_open cfg)
                          (cfg_disableCloseOnSelect cfg),
              selectionPosition := p,
              maskState :=
                Some (onTemplate (formatSide cfg (side p (pickerValue st))) (cfg_mask cfg))\<rparr>,
           [])
      | KeystrokeEvent k \<Rightarrow>
          (let r = applyKeystroke (displayText cfg st (selectionPosition st)) k (cfg_mask cfg)
           in if snd r
              then commitCandidate cfg (st\<lparr>maskState := Some (fst r)\<rparr>)
                     (parse (cfg_utils cfg) (fst r) (cfg_inputFormat cfg))
              else (st\<lparr>maskState := Some (fst r)\<rparr>, []))
      | CalendarSelect d \<Rightarrow> commitCandidate cfg st d
      | ExternalValueChange raw \<Rightarrow>
          (let v = parseInput rangePickerValueManager (cfg_utils cfg) raw
           in (st\<lparr>pickerValue := v, selectionPosition := Start,
                  validationError :=
                    validateRange (cfg_utils cfg) (cfg_rules cfg) (cfg_now cfg) v,
                  maskState := None\<rparr>,
               []))
      | Dismiss \<Rightarrow>
          (st\<lparr>isOpen := overlayPolicy CloseOnDismiss (isOpen st) (cfg_open cfg)
                          (cfg_disableCloseOnSelect cfg),
              maskState := None\<rparr>,
           []))"

text \<open>
  Modelled from the spec: events are handled one at a time, in the order received (5);
  the callbacks of a run are those of its transitions, in order.
\<close>

fun run ::
  "('d, 'r) PickerConfig \<Rightarrow> 'd PickerState \<Rightarrow> ('d, 'r) PickerEvent list \<Rightarrow>
   'd PickerState \<times> 'd Callback list" where
  "run cfg st [] = (st, [])"
| "run cfg st (ev # evs) =
     (let r = step cfg st ev; r' = run cfg (fst r) evs in (fst r', snd r @ snd r'))"

section \<open>A concrete adapter for the worked examples\<close>

text \<open>
  The examples below need an adapter to run on. This one has calendar dates as
  (year, month, day) triples, ordered lexicographically, equal when identical (two nulls
  are equal, a date never equals null), valid when month and day are in range, and the
  keyboard format \<^verbatim>\<open>MM/dd/yyyy\<close>. A text that is not ten characters of that shape
  parses to a date that is not valid.
\<close>

type_synonym ymd = "nat \<times> nat \<times> nat"

definition ymdBefore :: "ymd \<Rightarrow> ymd \<Rightarrow> bool" where
  "ymdBefore a b =
     (case a of (ya, ma, da) \<Rightarrow>
        (case b of (yb, mb, db) \<Rightarrow>
           ya < yb \<or> (ya = yb \<and> (ma < mb \<or> (ma = mb \<and> da < db)))))"

definition ymdValid :: "ymd \<Rightarrow> bool" where
  "ymdValid a = (case a of (y, m, d) \<Rightarrow> 1 \<le> m \<and> m \<le> 12 \<and> 1 \<le> d \<and> d \<le> 31)"

definition digitValue :: "char \<Rightarrow> nat" where
  "digitValue c = length (takeWhile (\<lambda>x. x \<noteq> c) ''0123456789'')"

definition digitChar :: "nat \<Rightarrow> char" where
  "digitChar n = ''0123456789'' ! (n mod 10)"

definition twoDigits :: "nat \<Rightarrow> string" where
  "twoDigits n = [digitChar (n div 10), digitChar n]"

definition formatMDY :: "ymd \<Rightarrow> string \<Rightarrow> string" where
  "formatMDY a fmt =
     (case a of (y, m, d) \<Rightarrow>
        twoDigits m @ ''/'' @ twoDigits d @ ''/'' @ twoDigits (y div 100) @ twoDigits y)"

definition parseMDY :: "string \<Rightarrow> string \<Rightarrow> ymd" where
  "parseMDY txt fmt =
     (if length txt = 10 \<and> list_all isDigit (take 2 txt @ take 2 (drop 3 txt) @ drop 6 txt)
      then (1000 * digitValue (txt ! 6) + 100 * digitValue (txt ! 7)
              + 10 * digitValue (txt ! 8) + digitValue (txt ! 9),
            10 * digitValue (txt ! 0) + digitValue (txt ! 1),
            10 * digitValue (txt ! 3) + digitValue (txt ! 4))
      else (0, 0, 0))"

definition ymdAdapter :: "(ymd, ymd) MuiPickersAdapter" where
  "ymdAdapter =
     \<lparr> isEqual = (\<lambda>a b. a = b),
       isBefore = ymdBefore,
       isAfter = (\<lambda>a b. ymdBefore b a),
       isValid = ymdValid,
       date = (\<lambda>r. r),
       parse = parseMDY,
       format = formatMDY,
       keyboardDate = ''MM/dd/yyyy'' \<rparr>"

definition ymdDefaultDates :: "ymd DefaultDates" where
  "ymdDefaultDates = \<lparr> defaultMinDate = (1900, 1, 1), defaultMaxDate = (2099, 12, 31) \<rparr>"

text \<open>Props with only the value given, and the configuration they lead to.\<close>

definition bareProps :: "ymd RangeInput \<Rightarrow> (ymd, ymd) DateRangePickerProps" where
  "bareProps v =
     \<lparr> disableFuture = False, disablePast = False, minDate = None, maxDate = None,
       shouldDisableDate = None, shouldDisableYear = None,
       calendars = None, valueProp = v, mask = None, startText = None, endText = None,
       inputFormat = None, disableCloseOnSelect = False, openProp = None \<rparr>"

definition exampleNow :: ymd where
  "exampleNow = (2023, 1, 10)"

definition exampleConfig :: "(ymd, ymd) PickerConfig" where
  "exampleConfig = pickerConfig ymdAdapter ymdDefaultDates exampleNow (bareProps (None, None))"


text \<open>A picker created empty, and the same picker after its start input was focused.\<close>

definition emptyPicker :: "ymd PickerState" where
  "emptyPicker = initialState exampleConfig (None, None)"

definition focusedPicker :: "ymd PickerState" where
  "focusedPicker = fst (step exampleConfig emptyPicker (FocusInput Start))"

text \<open>Typing a text, one key after the other.\<close>

definition typed :: "string \<Rightarrow> (ymd, ymd) PickerEvent list" where
  "typed txt = map (\<lambda>c. KeystrokeEvent (Key c)) txt"

section \<open>Properties of the value model\<close>

text \<open>
  C1. For range values \<open>a = [a0, a1]\<close> and \<open>b = [b0, b1]\<close> the equality check of the
  range value manager is true exactly when the adapter's \<open>isEqual\<close> holds on the two
  start slots and on the two end slots. Each of the four slots ranges over the nullable
  dates: the check only forwards the slots to the adapter, so it gives this answer for
  every combination of null and non-null slots.
\<close>

theorem areValuesEqual_componentwise:
  "areValuesEqual rangePickerValueManager utils (a0, a1) (b0, b1)
     = (isEqual utils a0 b0 \<and> isEqual utils a1 b1)"
  by (simp add: rangePickerValueManager_def)

text \<open>
  The check on the example adapter with null slots: two empty ranges are equal, a null
  start against a date is not, and a null end on both sides leaves the start to decide.
\<close>

theorem areValuesEqual_componentwise_witness:
  "areValuesEqual rangePickerValueManager ymdAdapter (None, None) (None, None)
   \<and> \<not> areValuesEqual rangePickerValueManager ymdAdapter (None, None)
         (Some (2023, 1, 5), None)
   \<and> areValuesEqual rangePickerValueManager ymdAdapter (Some (2023, 1, 5), None)
         (Some (2023, 1, 5), None)
   \<and> \<not> areValuesEqual rangePickerValueManager ymdAdapter (Some (2023, 1, 5), None)
         (Some (2023, 1, 5), Some (2023, 1, 7))"
  using areValuesEqual_componentwise [of ymdAdapter None None None None]
    areValuesEqual_componentwise [of ymdAdapter None None "Some (2023, 1, 5)" None]
    areValuesEqual_componentwise [of ymdAdapter "Some (2023, 1, 5)" None "Some (2023, 1, 5)" None]
    areValuesEqual_componentwise
      [of ymdAdapter "Some (2023, 1, 5)" None "Some (2023, 1, 5)" "Some (2023, 1, 7)"]
  by (simp add: ymdAdapter_def)

text \<open>
  C9. The empty value of the range value manager is the pair \<open>[null, null]\<close>, a pair
  and not a bare null. A range value is equal to it, under the manager's equality check,
  exactly when both of its slots are adapter-equal to null. For an adapter on which null
  equals null and no date equals null, that is exactly when the value is the empty value
  itself.
\<close>

theorem emptyValue_null_pair:
  "(let vm = rangePickerValueManager in
     emptyValue vm = (None, None)
     \<and> areValuesEqual vm utils v (emptyValue vm)
         = (isEqual utils (fst v) None \<and> isEqual utils (snd v) None)
     \<and> (isEqual utils None None \<and> (\<forall>d. \<not> isEqual utils (Some d) None) \<longrightarrow>
          areValuesEqual vm utils v (emptyValue vm) = (v = emptyValue vm)))"
proof -
  have "isEqual utils x None = (x = None)"
    if "isEqual utils None None" and "\<forall>d. \<not> isEqual utils (Some d) None" for x
    using that by (cases x) auto
  then show ?thesis
    by (cases v) (auto simp add: rangePickerValueManager_def)
qed

text \<open>
  On the example adapter, which satisfies both conditions, the empty range is found
  empty and a range with only a start is not.
\<close>

theorem emptyValue_null_pair_witness:
  "(let vm = rangePickerValueManager in
     isEqual ymdAdapter None None \<and> (\<forall>d. \<not> isEqual ymdAdapter (Some d) None)
     \<and> areValuesEqual vm ymdAdapter (None, None) (emptyValue vm)
     \<and> \<not> areValuesEqual vm ymdAdapter (Some (2023, 1, 5), None) (emptyValue vm))"
  using emptyValue_null_pair [of ymdAdapter "(None, None)"]
    emptyValue_null_pair [of ymdAdapter "(Some (2023, 1, 5), None)"]
  by (simp add: ymdAdapter_def rangePickerValueManager_def Let_def)

text \<open>
  C6. \<open>parseInput\<close> of the range value manager parses the two sides of a two-element
  input independently through the adapter. For every date \<open>d\<close> the partially-null input
  \<open>[d, null]\<close> gives \<open>[parsed d, null]\<close>, only the start chosen, which is not the empty
  value \<open>[null, null]\<close>.
\<close>

theorem parseInput_partial_range:
  "parseInput rangePickerValueManager utils (a, b)
     = (map_option (date utils) a, map_option (date utils) b)
   \<and> parseInput rangePickerValueManager utils (Some d, None) = (Some (date utils d), None)
   \<and> parseInput rangePickerValueManager utils (Some d, None) \<noteq> (None, None)"
  by (simp add: rangePickerValueManager_def parseRangeInputValue_def)

section \<open>Properties of the props handed on\<close>

text \<open>
  C10. When the \<open>mask\<close> prop is omitted, the mask in \<^verbatim>\<open>DateInputProps\<close> is the template
  \<^verbatim>\<open>__/__/____\<close>; a supplied mask replaces it. \<^verbatim>\<open>DateInputProps\<close> holds this one
  mask and no other, and goes to the keyboard input component, which renders both the
  start and the end text field, and to the view.
\<close>

theorem mask_default:
  "dip_mask (wrapper_DateInputProps (DateRangePicker utils defaultDates pos err props))
     = (case mask props of None \<Rightarrow> ''__/__/____'' | Some m \<Rightarrow> m)
   \<and> dip_mask (view_DateInputProps (DateRangePicker utils defaultDates pos err props))
     = (case mask props of None \<Rightarrow> ''__/__/____'' | Some m \<Rightarrow> m)"
  by (simp add: DateRangePicker_def DateInputProps_of_def Let_def)

text \<open>The mask template of the controller is that mask.\<close>

lemma pickerConfig_mask:
  "cfg_mask (pickerConfig utils defaultDates now props)
     = (case mask props of None \<Rightarrow> ''__/__/____'' | Some m \<Rightarrow> m)"
  by (simp add: DateRangePicker_def DateInputProps_of_def pickerConfig_def Let_def)

text \<open>
  The bounds in the rest props are the given props, or the defaults of the adapter
  context where a prop is omitted.
\<close>

lemma restProps_bounds:
  "minDate (restProps defaultDates props)
     = Some (case minDate props of None \<Rightarrow> defaultMinDate defaultDates | Some d \<Rightarrow> d)
   \<and> maxDate (restProps defaultDates props)
     = Some (case maxDate props of None \<Rightarrow> defaultMaxDate defaultDates | Some d \<Rightarrow> d)"
  by (simp add: restProps_def)

text \<open>
  The view and \<^verbatim>\<open>DateInputProps\<close> receive the rest props; the validation hook receives
  the bounds of the props as they came in.
\<close>

lemma DateRangePicker_bounds:
  "view_restProps (DateRangePicker utils defaultDates pos err props) = restProps defaultDates props
   \<and> dip_restProps (wrapper_DateInputProps (DateRangePicker utils defaultDates pos err props))
       = restProps defaultDates props
   \<and> minDate (validation_props (DateRangePicker utils defaultDates pos err props)) = minDate props
   \<and> maxDate (validation_props (DateRangePicker utils defaultDates pos err props)) = maxDate props"
  by (simp add: DateRangePicker_def DateInputProps_of_def validationProps_def Let_def)

text \<open>
  C8. The picker with no \<open>minDate\<close> and no \<open>maxDate\<close> prop and the start date 1 June
  1850: the view and the text fields receive the default bounds, 1 January 1900 and 31
  December 2099, while the validation hook receives no bound at all. Validated against
  the bounds the view has, the start date is before the minimum; validated as the
  picker validates it, it carries no error.
\<close>

theorem validation_receives_raw_bounds:
  "(let props = bareProps (Some (1850, 6, 1), None);
        r = DateRangePicker ymdAdapter ymdDefaultDates Start
              (useDateRangeValidation ymdAdapter exampleNow props) props
    in minDate props = None
       \<and> minDate (view_restProps r) = Some (1900, 1, 1)
       \<and> minDate (dip_restProps (wrapper_DateInputProps r)) = Some (1900, 1, 1)
       \<and> minDate (validation_props r) = None
       \<and> maxDate (view_restProps r) = Some (2099, 12, 31)
       \<and> maxDate (validation_props r) = None
       \<and> startError (validateRange ymdAdapter (view_restProps r) exampleNow
            (Some (1850, 6, 1), None)) = MinDate
       \<and> startError (useDateRangeValidation ymdAdapter exampleNow props) = NoError)"
  by code_simp

text \<open>
  The selection position is \<open>start\<close> when the component is created, and a render hands
  the current position, unchanged, to the view and, in \<^verbatim>\<open>DateInputProps\<close>, to the
  keyboard input component. These two are also the only receivers of its setter (lines
  154 and 175); the component itself never calls it.
\<close>

lemma selection_position_handed_on:
  "currentlySelectingRangeEnd_initial = Start
   \<and> view_currentlySelectingRangeEnd (DateRangePicker utils defaultDates pos err props) = pos
   \<and> dip_currentlySelectingRangeEnd
         (wrapper_DateInputProps (DateRangePicker utils defaultDates pos err props)) = pos
   \<and> dip_currentlySelectingRangeEnd
         (view_DateInputProps (DateRangePicker utils defaultDates pos err props)) = pos"
  by (simp add: currentlySelectingRangeEnd_initial_def DateRangePicker_def
      DateInputProps_of_def Let_def)

section \<open>Properties of the validation engine\<close>

text \<open>
  C4 (amended). An absent value has no error. For a value that is present,
  \<open>validate\<close> returns the first rule that matches in the fixed order \<open>invalidDate\<close>,
  \<open>disableFuture\<close>, \<open>disablePast\<close>, \<open>minDate\<close>, \<open>maxDate\<close>, \<open>shouldDisableDate\<close>,
  \<open>shouldDisableYear\<close>, and none if no rule matches. With no rule configured, a value
  the adapter finds valid has no error, and an unparsable value still has the error
  \<open>invalidDate\<close>, which no configuration switches off.
\<close>

theorem validate_first_match:
  "validate utils rules now None = NoError
   \<and> validate utils rules now (Some d) = firstMatch (rulesInOrder utils rules now d)
   \<and> validate utils noRules now (Some d) = (if isValid utils d then NoError else InvalidDate)"
  by (simp add: validate_def rulesInOrder_def noRules_def beforeMinDate_def afterMaxDate_def
      dateDisabled_def yearDisabled_def)

text \<open>
  C4 as stated fails: with no rule configured, the date with month 13 is present but
  not valid, and its result is \<open>invalidDate\<close>, not none.
\<close>

theorem validate_noRules_counterexample:
  "\<not> isValid ymdAdapter (2023, 13, 1)
   \<and> validate ymdAdapter noRules exampleNow (Some (2023, 13, 1)) = InvalidDate
   \<and> validate ymdAdapter noRules exampleNow (Some (2023, 13, 1)) \<noteq> NoError"
  by (simp add: validate_def ymdAdapter_def ymdValid_def)




section \<open>Properties of the picker state controller\<close>

text \<open>The example configuration and the two example states, written out.\<close>

lemma exampleConfig_eq:
  "exampleConfig =
     \<lparr> cfg_utils = ymdAdapter, cfg_rules = noRules, cfg_now = exampleNow,
       cfg_mask = ''__/__/____'', cfg_inputFormat = ''MM/dd/yyyy'',
       cfg_disableCloseOnSelect = False, cfg_open = None \<rparr>"
  by (simp add: exampleConfig_def pickerConfig_def DateRangePicker_def DateInputProps_of_def
      validationProps_def bareProps_def noRules_def ymdAdapter_def Let_def)

lemma emptyPicker_eq:
  "emptyPicker =
     \<lparr> pickerValue = (None, None), isOpen = False, selectionPosition = Start,
       validationError = \<lparr> startError = NoError, endError = NoError, rangeError = NoError \<rparr>,
       maskState = None \<rparr>"
  by (simp add: emptyPicker_def initialState_def exampleConfig_eq rangePickerValueManager_def
      parseRangeInputValue_def validateRange_def validate_def startAfterEnd_def
      currentlySelectingRangeEnd_initial_def Let_def)

lemma focusedPicker_eq:
  "focusedPicker =
     \<lparr> pickerValue = (None, None), isOpen = True, selectionPosition = Start,
       validationError = \<lparr> startError = NoError, endError = NoError, rangeError = NoError \<rparr>,
       maskState = Some ''__/__/____'' \<rparr>"
  by (simp add: focusedPicker_def emptyPicker_eq step_def exampleConfig_eq overlayPolicy_def
      formatSide_def side_def onTemplate_def)

lemma valid_example_date:
  "ymdValid (y, m, d) \<Longrightarrow>
   validate ymdAdapter noRules exampleNow (Some (y, m, d)) = NoError"
  by (simp add: validate_def ymdAdapter_def noRules_def beforeMinDate_def afterMaxDate_def
      dateDisabled_def yearDisabled_def)

text \<open>
  C3. In range mode, with the selection position at the start, let a start date and then
  an end date be committed, each without an error of its own and the start after the
  end. The first commit stores the start and moves the selection position to the end.
  The second calls \<open>onError\<close> once with \<open>invalidRange\<close> and \<open>onChange\<close> exactly once,
  with the inverted pair as entered, neither reordered nor rejected; the pair is the new
  value; and the overlay is as open as it was before, since only a fully valid pair
  requests a close.
\<close>

theorem inverted_range_commit:
  assumes "selectionPosition st = Start"
    and "validate (cfg_utils cfg) (cfg_rules cfg) (cfg_now cfg) (Some s) = NoError"
    and "validate (cfg_utils cfg) (cfg_rules cfg) (cfg_now cfg) (Some e) = NoError"
    and "isAfter (cfg_utils cfg) s e"
  shows "(let r1 = step cfg st (CalendarSelect s);
              r2 = step cfg (fst r1) (CalendarSelect e)
          in pickerValue (fst r1) = (Some s, snd (pickerValue st))
             \<and> selectionPosition (fst r1) = End
             \<and> snd r2 = [OnError \<lparr> startError = NoError, endError = NoError,
                                   rangeError = InvalidRange \<rparr>,
                         OnChange (Some s, Some e)]
             \<and> pickerValue (fst r2) = (Some s, Some e)
             \<and> validationError (fst r2)
                 = \<lparr> startError = NoError, endError = NoError, rangeError = InvalidRange \<rparr>
             \<and> isOpen (fst r2) = isOpen st)"
  using assms
  by (simp add: step_def commitCandidate_def setSide_def validateRange_def startAfterEnd_def
      fullyValid_def Let_def)

text \<open>
  The scenario of the specification: the start input focused, then 5 January 2023 and
  3 January 2023 selected. The overlay is open before and after.
\<close>

theorem inverted_range_commit_witness:
  "selectionPosition focusedPicker = Start
   \<and> validate ymdAdapter noRules exampleNow (Some (2023, 1, 5)) = NoError
   \<and> validate ymdAdapter noRules exampleNow (Some (2023, 1, 3)) = NoError
   \<and> isAfter ymdAdapter (2023, 1, 5) (2023, 1, 3)
   \<and> isOpen focusedPicker
   \<and> (let r1 = step exampleConfig focusedPicker (CalendarSelect (2023, 1, 5));
           r2 = step exampleConfig (fst r1) (CalendarSelect (2023, 1, 3))
       in snd r2 = [OnError \<lparr> startError = NoError, endError = NoError,
                               rangeError = InvalidRange \<rparr>,
                    OnChange (Some (2023, 1, 5), Some (2023, 1, 3))]
          \<and> pickerValue (fst r2) = (Some (2023, 1, 5), Some (2023, 1, 3))
          \<and> isOpen (fst r2))"
proof -
  have p: "selectionPosition focusedPicker = Start"
    by (simp add: focusedPicker_eq)
  have s: "validate (cfg_utils exampleConfig) (cfg_rules exampleConfig) (cfg_now exampleConfig)
             (Some (2023, 1, 5)) = NoError"
    by (simp add: exampleConfig_eq valid_example_date ymdValid_def)
  have e: "validate (cfg_utils exampleConfig) (cfg_rules exampleConfig) (cfg_now exampleConfig)
             (Some (2023, 1, 3)) = NoError"
    by (simp add: exampleConfig_eq valid_example_date ymdValid_def)
  have a: "isAfter (cfg_utils exampleConfig) (2023, 1, 5) (2023, 1, 3)"
    by (simp add: exampleConfig_eq ymdAdapter_def ymdBefore_def)
  from inverted_range_commit [OF p s e a] p s e a
  show ?thesis
    by (simp add: Let_def exampleConfig_eq focusedPicker_eq)
qed

text \<open>
  The same scenario typed on the keyboard: the eight digits of the start date, then the
  eight digits of the end date.
\<close>

lemma typed_inverted_range:
  "run exampleConfig focusedPicker (typed ''01052023'' @ typed ''01032023'')
     = (\<lparr> pickerValue = (Some (2023, 1, 5), Some (2023, 1, 3)), isOpen = True,
           selectionPosition = End,
           validationError = \<lparr> startError = NoError, endError = NoError,
                               rangeError = InvalidRange \<rparr>,
           maskState = None \<rparr>,
        [OnError \<lparr> startError = NoError, endError = NoError, rangeError = NoError \<rparr>,
         OnChange (Some (2023, 1, 5), None),
         OnError \<lparr> startError = NoError, endError = NoError, rangeError = InvalidRange \<rparr>,
         OnChange (Some (2023, 1, 5), Some (2023, 1, 3))])"
  by code_simp

text \<open>
  An end date after the start, in contrast, makes the pair fully valid, and the overlay
  closes.
\<close>

lemma ordered_range_commit_closes:
  "run exampleConfig focusedPicker [CalendarSelect (2023, 1, 3), CalendarSelect (2023, 1, 5)]
     = (\<lparr> pickerValue = (Some (2023, 1, 3), Some (2023, 1, 5)), isOpen = False,
           selectionPosition = End,
           validationError = \<lparr> startError = NoError, endError = NoError,
                               rangeError = NoError \<rparr>,
           maskState = None \<rparr>,
        [OnError \<lparr> startError = NoError, endError = NoError, rangeError = NoError \<rparr>,
         OnChange (Some (2023, 1, 3), None),
         OnError \<lparr> startError = NoError, endError = NoError, rangeError = NoError \<rparr>,
         OnChange (Some (2023, 1, 3), Some (2023, 1, 5))])"
  by code_simp



end
